theory Spec2Isabelle
  imports Main "HOL-Library.Word"
begin

section \<open>The data of \<open>msm/sde/sde_vm.h\<close>\<close>

text \<open>
  The header declares the VM layer of the SDE display driver: the IRQ descriptors, the
  table of hooks \<open>sde_vm_ops\<close>, the descriptor \<open>sde_vm\<close> and the inline helpers through
  which the rest of the driver reaches the layer. Each C struct is a record with the
  members of the struct, in the order of the header.
\<close>

type_synonym u32 = "32 word"

record sde_vm_irq_entry =
  label :: u32
  irq :: u32

text \<open>
  \<open>irq_entries\<close> points to an array of \<open>n_irq\<close> entries; the array is the list.
\<close>

record sde_vm_irq_desc =
  n_irq :: u32
  irq_entries :: "sde_vm_irq_entry list"

text \<open>
  The members of \<open>sde_vm_ops\<close> are function pointers. The helpers of the header never
  call them, they only hand the table out, so a hook is the address of its function
  (\<open>0\<close> is \<open>NULL\<close>).
\<close>

type_synonym hook = nat

record sde_vm_ops =
  vm_acquire :: hook
  vm_release :: hook
  vm_owns_hw :: hook
  vm_prepare_commit :: hook
  vm_post_commit :: hook
  vm_deinit :: hook
  vm_check :: hook
  vm_client_pre_release :: hook
  vm_client_post_acquire :: hook
  vm_request_valid :: hook

text \<open>
  \<open>struct mutex\<close> belongs to the kernel. In a run of one thread a mutex is free or
  held; \<open>mutex_lock\<close> on a held mutex sleeps until some other thread releases it, which
  in this run never happens, so it does not return (\<open>None\<close>). \<open>mutex_unlock\<close> leaves
  the mutex free.
\<close>

datatype mutex = Unlocked | Locked

definition mutex_lock :: "mutex \<Rightarrow> mutex option" where
  "mutex_lock m = (case m of Unlocked \<Rightarrow> Some Locked | Locked \<Rightarrow> None)"

definition mutex_unlock :: "mutex \<Rightarrow> mutex" where
  "mutex_unlock m = Unlocked"

text \<open>
  \<open>struct sde_vm\<close>. \<open>mem_notification_cookie\<close> is a \<open>void *\<close> and \<open>sde_kms\<close> a
  back pointer, both kept as addresses (the member \<open>sde_kms\<close> is named \<open>sde_kms_ref\<close>
  here, the name \<open>sde_kms\<close> being the record of the context below); \<open>n_irq_lent\<close> is
  an \<open>atomic_t\<close> and \<open>io_mem_handle\<close> an \<open>int\<close>, both signed counters of the C type
  \<open>int\<close>.
\<close>

record sde_vm =
  vm_res_lock :: mutex
  mem_notification_cookie :: nat
  n_irq_lent :: int
  io_mem_handle :: int
  sde_kms_ref :: nat
  vm_ops :: sde_vm_ops

text \<open>
  \<open>struct sde_vm_primary\<close> and \<open>struct sde_vm_trusted\<close> start with a \<open>struct sde_vm\<close>
  member \<open>base\<close>, the "parent struct object": they are extensions of the record
  \<open>sde_vm\<close>. Both name their IRQ list \<open>irq_desc\<close>; the records tell the two apart by a
  prefix. The pointers are \<open>None\<close> when \<open>NULL\<close>. \<open>struct hh_sgl_desc\<close> belongs to the
  hypervisor's headers and stays a type parameter.
\<close>

record sde_vm_primary = sde_vm +
  primary_irq_desc :: "sde_vm_irq_desc option"

record 'sgl sde_vm_trusted = sde_vm +
  trusted_irq_desc :: "sde_vm_irq_desc option"
  sgl_desc :: "'sgl option"

text \<open>
  \<open>struct sde_kms\<close> is only declared in this header (\<open>struct sde_kms;\<close>); the helpers
  read one member of it, the pointer \<open>vm\<close> to the installed descriptor. The record has
  that member, \<open>None\<close> when the pointer is \<open>NULL\<close>, and its extension part stands
  for every other member of the struct.
\<close>

record sde_kms =
  vm :: "sde_vm option"

section \<open>The inline helpers\<close>

text \<open>
  The header defines every helper twice, under \<open>#if IS_ENABLED(CONFIG_DRM_SDE_VM)\<close> and
  under \<open>#else\<close>. The first argument of each function below is the value of that
  configuration switch. The helpers take a pointer to the context and return or change
  what it points to: the functions take the context and return the result, or the
  context after the call.
\<close>

text \<open>
  With the switch on, \<open>sde_vm_primary_init\<close> and \<open>sde_vm_trusted_init\<close> are declared
  here and defined in another file; that definition is the argument \<open>impl\<close>. With the
  switch off they are \<open>return 0;\<close>.
\<close>

definition sde_vm_primary_init ::
  "bool \<Rightarrow> ('a sde_kms_scheme \<Rightarrow> int \<times> 'a sde_kms_scheme) \<Rightarrow> 'a sde_kms_scheme
     \<Rightarrow> int \<times> 'a sde_kms_scheme" where
  "sde_vm_primary_init config impl kms = (if config then impl kms else (0, kms))"

definition sde_vm_trusted_init ::
  "bool \<Rightarrow> ('a sde_kms_scheme \<Rightarrow> int \<times> 'a sde_kms_scheme) \<Rightarrow> 'a sde_kms_scheme
     \<Rightarrow> int \<times> 'a sde_kms_scheme" where
  "sde_vm_trusted_init config impl kms = (if config then impl kms else (0, kms))"

text \<open>\<open>return !!sde_kms->vm;\<close> with the switch on, \<open>return false;\<close> with it off.\<close>

definition sde_vm_is_enabled :: "bool \<Rightarrow> 'a sde_kms_scheme \<Rightarrow> bool" where
  "sde_vm_is_enabled config kms = (if config then vm kms \<noteq> None else False)"

text \<open>
  \<open>if (!sde_kms->vm) return; mutex_lock(&sde_kms->vm->vm_res_lock);\<close> with the switch
  on, an empty body with it off. The result is \<open>None\<close> when \<open>mutex_lock\<close> does not
  return.
\<close>

definition sde_vm_lock :: "bool \<Rightarrow> 'a sde_kms_scheme \<Rightarrow> 'a sde_kms_scheme option" where
  "sde_vm_lock config kms =
     (if config then
        (case vm kms of
           None \<Rightarrow> Some kms
         | Some v \<Rightarrow>
             (case mutex_lock (vm_res_lock v) of
                None \<Rightarrow> None
              | Some m \<Rightarrow> Some (kms\<lparr>vm := Some (v\<lparr>vm_res_lock := m\<rparr>)\<rparr>)))
      else Some kms)"

text \<open>
  \<open>if (!sde_kms->vm) return; mutex_unlock(&sde_kms->vm->vm_res_lock);\<close> with the switch
  on, an empty body with it off.
\<close>

definition sde_vm_unlock :: "bool \<Rightarrow> 'a sde_kms_scheme \<Rightarrow> 'a sde_kms_scheme" where
  "sde_vm_unlock config kms =
     (if config then
        (case vm kms of
           None \<Rightarrow> kms
         | Some v \<Rightarrow> kms\<lparr>vm := Some (v\<lparr>vm_res_lock := mutex_unlock (vm_res_lock v)\<rparr>)\<rparr>)
      else kms)"

text \<open>
  \<open>if (!sde_kms->vm) return NULL; return &sde_kms->vm->vm_ops;\<close> with the switch on,
  \<open>return NULL;\<close> with it off. The pointer returned is the table it points to.
\<close>

definition sde_vm_get_ops :: "bool \<Rightarrow> 'a sde_kms_scheme \<Rightarrow> sde_vm_ops option" where
  "sde_vm_get_ops config kms =
     (if config then
        (case vm kms of
           None \<Rightarrow> None
         | Some v \<Rightarrow> Some (vm_ops v))
      else None)"

text \<open>Two contexts to evaluate the helpers on: one with a descriptor, one without.\<close>

definition ops0 :: sde_vm_ops where
  "ops0 = \<lparr>vm_acquire = 1, vm_release = 2, vm_owns_hw = 3, vm_prepare_commit = 4,
           vm_post_commit = 5, vm_deinit = 6, vm_check = 7, vm_client_pre_release = 8,
           vm_client_post_acquire = 9, vm_request_valid = 10\<rparr>"

definition vm0 :: sde_vm where
  "vm0 = \<lparr>vm_res_lock = Unlocked, mem_notification_cookie = 0, n_irq_lent = 0,
          io_mem_handle = 0, sde_kms_ref = 4096, vm_ops = ops0\<rparr>"

definition kms_on :: sde_kms where
  "kms_on = \<lparr>vm = Some vm0\<rparr>"

definition kms_off :: sde_kms where
  "kms_off = \<lparr>vm = None\<rparr>"

section \<open>The operations behind the hooks\<close>

text \<open>
  The header declares the hooks of \<open>sde_vm_ops\<close> and the members of \<open>sde_vm\<close> they work
  on; the functions the hooks point to are defined in other files of the driver. This
  section is their model, written from the specification of the VM layer, sentence by
  sentence; each definition quotes the sentences it follows. The hypervisor's resource
  manager, the hardware clients and the table of legal requests are outside the layer:
  they are the fields of \<open>collaborators\<close>, and every property below holds for all of
  them.
\<close>

text \<open>
  Modelled from the spec: the error kinds of section 7, "\<open>ResourceLendFailure\<close>
  (hypervisor rejected a lend), \<open>ResourceMismatch\<close> (reclaim returned a different
  resource set than expected), \<open>OwnershipViolation\<close> (commit attempted without
  ownership), \<open>ClientNotReady\<close> (vm_check reports busy), \<open>InvalidTransition\<close> (Request
  Validator rejection), \<open>NotificationUnmatched\<close> (cookie mismatch, logged and dropped)".
\<close>

datatype error =
    ResourceLendFailure
  | ResourceMismatch
  | OwnershipViolation
  | ClientNotReady
  | InvalidTransition
  | NotificationUnmatched

type_synonym handle = nat
type_synonym cookie = nat

text \<open>
  Modelled from the spec: the ResourceLedger of section 3. "\<open>held_irq_count\<close>: integer;
  number of IRQ lines currently lent to this VM" (the member \<open>n_irq_lent\<close>),
  "\<open>io_memory_handle\<close>: opaque identifier for the lent I/O memory region, or none"
  (\<open>io_mem_handle\<close>), "\<open>notification_cookie\<close>: opaque correlation token for in-flight
  hypervisor notifications, or none" (\<open>mem_notification_cookie\<close>). The invariant of the
  ledger speaks of two more things, which are fields here: "the currently-lent IRQ list"
  (\<open>lent_irqs\<close>, the entry lent last first) and "the ledger's exclusive lock"
  (\<open>res_lock\<close>, the member \<open>vm_res_lock\<close>).
\<close>

record ResourceLedger =
  held_irq_count :: int
  io_memory_handle :: "handle option"
  notification_cookie :: "cookie option"
  lent_irqs :: "sde_vm_irq_entry list"
  res_lock :: mutex

text \<open>
  Modelled from the spec: the collaborators of section 6. The resource manager answers a
  lend of one IRQ (accepted or rejected), a lend of a memory range ("\<open>lend\<close> gives a
  handle or an error") and a reclaim of a memory handle; each hardware client reports
  busy or not to "\<open>vm_check\<close> readiness polling"; the legal pairs of request states are
  "an injected policy table". \<open>'r\<close> is the MemoryRangeDescriptor ("an opaque
  scatter-list"), \<open>'q\<close> the RequestState ("an externally-defined enumeration").
\<close>

record ('r, 'q) collaborators =
  hrm_lend_irq :: "sde_vm_irq_entry \<Rightarrow> bool"
  hrm_lend_memory :: "'r \<Rightarrow> handle option"
  hrm_reclaim_memory :: "handle \<Rightarrow> bool"
  client_busy :: "bool list"
  legal_transition :: "'q \<Rightarrow> 'q \<Rightarrow> bool"

text \<open>
  Modelled from the spec: the ledger of a role that has just been initialised; it holds
  nothing ("zero held IRQs, no memory handle, no pending cookie") and its lock is free.
\<close>

definition new_ledger :: ResourceLedger where
  "new_ledger = \<lparr>held_irq_count = 0, io_memory_handle = None, notification_cookie = None,
                  lent_irqs = [], res_lock = Unlocked\<rparr>"

text \<open>
  Modelled from the spec: the roll-back of \<open>lend_irqs\<close>, "on partial failure rolls back
  any already-lent entries in this call". \<open>taken\<close> are the entries this call has lent,
  the last one first; each is given back, that is, leaves the lent list.
\<close>

fun rollback_irqs :: "sde_vm_irq_entry list \<Rightarrow> sde_vm_irq_entry list \<Rightarrow> sde_vm_irq_entry list" where
  "rollback_irqs [] lent = lent"
| "rollback_irqs (d # ds) lent = rollback_irqs ds (remove1 d lent)"

text \<open>
  Modelled from the spec: the loop of \<open>lend_irqs\<close>, "requests the hypervisor resource
  manager lend the given IRQ labels to the target VM", one entry after the other in the
  order of the list. An accepted entry joins the lent list; the first rejected one ends
  the call with \<open>ResourceLendFailure\<close> after the roll-back.
\<close>

fun lend_each ::
  "(sde_vm_irq_entry \<Rightarrow> bool) \<Rightarrow> sde_vm_irq_entry list \<Rightarrow> sde_vm_irq_entry list
     \<Rightarrow> sde_vm_irq_entry list \<Rightarrow> (error + unit) \<times> sde_vm_irq_entry list" where
  "lend_each ok [] taken lent = (Inr (), lent)"
| "lend_each ok (e # es) taken lent =
     (if ok e then lend_each ok es (e # taken) (e # lent)
      else (Inl ResourceLendFailure, rollback_irqs taken lent))"

text \<open>
  Modelled from the spec: "\<open>lend_irqs(list) -> Result<(), Error>\<close>: on success
  increments \<open>held_irq_count\<close> by \<open>len(list)\<close>; on partial failure rolls back any
  already-lent entries in this call before returning an error".
\<close>

definition lend_irqs ::
  "('r, 'q) collaborators \<Rightarrow> sde_vm_irq_entry list \<Rightarrow> ResourceLedger
     \<Rightarrow> (error + unit) \<times> ResourceLedger" where
  "lend_irqs C es L =
     (case lend_each (hrm_lend_irq C) es [] (lent_irqs L) of
        (Inr u, lent') \<Rightarrow>
          (Inr (), L\<lparr>lent_irqs := lent',
                      held_irq_count := held_irq_count L + int (length es)\<rparr>)
      | (Inl e, lent') \<Rightarrow> (Inl e, L\<lparr>lent_irqs := lent'\<rparr>))"

text \<open>
  Modelled from the spec: "\<open>reclaim_irqs(expected_list)\<close>: succeeds only if the
  hypervisor confirms the reclaimed set matches \<open>expected_list\<close> exactly (same labels,
  same count); on mismatch returns a consistency error and does not decrement the
  count". What the hypervisor reclaims is what is lent; it is compared in the order of
  the requests, "the order used for symmetric release".
\<close>

definition reclaim_irqs ::
  "sde_vm_irq_entry list \<Rightarrow> ResourceLedger \<Rightarrow> (error + unit) \<times> ResourceLedger" where
  "reclaim_irqs expected L =
     (if map label (rev (lent_irqs L)) = map label expected
      then (Inr (), L\<lparr>lent_irqs := [],
                       held_irq_count := held_irq_count L - int (length expected)\<rparr>)
      else (Inl ResourceMismatch, L))"

text \<open>
  Modelled from the spec: "\<open>lend_memory(range_descriptor) -> Result<handle, Error>\<close>:
  at most one outstanding handle per ledger".
\<close>

definition lend_memory ::
  "('r, 'q) collaborators \<Rightarrow> 'r \<Rightarrow> ResourceLedger \<Rightarrow> (error + handle) \<times> ResourceLedger" where
  "lend_memory C mem L =
     (case io_memory_handle L of
        Some h \<Rightarrow> (Inl ResourceLendFailure, L)
      | None \<Rightarrow>
          (case hrm_lend_memory C mem of
             None \<Rightarrow> (Inl ResourceLendFailure, L)
           | Some h \<Rightarrow> (Inr h, L\<lparr>io_memory_handle := Some h\<rparr>)))"

text \<open>
  Modelled from the spec: "\<open>reclaim_memory(handle) -> Result<(), Error>\<close>: same
  lend/reclaim pairing discipline for the single I/O memory handle".
\<close>

definition reclaim_memory ::
  "('r, 'q) collaborators \<Rightarrow> handle \<Rightarrow> ResourceLedger \<Rightarrow> (error + unit) \<times> ResourceLedger" where
  "reclaim_memory C h L =
     (if io_memory_handle L = Some h \<and> hrm_reclaim_memory C h
      then (Inr (), L\<lparr>io_memory_handle := None\<rparr>)
      else (Inl ResourceMismatch, L))"

text \<open>
  Modelled from the spec: "\<open>register_notification(cookie)\<close>: the bridge stores one
  outstanding cookie per ledger".
\<close>

definition register_notification :: "cookie \<Rightarrow> ResourceLedger \<Rightarrow> ResourceLedger" where
  "register_notification c L = L\<lparr>notification_cookie := Some c\<rparr>"

text \<open>
  Modelled from the spec: "\<open>on_notification(cookie) -> Event\<close>: an incoming hypervisor
  notification is correlated by exact cookie match; a non-matching notification is
  dropped and logged, never applied to the ledger". What a matching notification does
  to the ledger is not said; it is the argument \<open>effect\<close>.
\<close>

datatype Event = Delivered | Dropped

definition on_notification ::
  "(ResourceLedger \<Rightarrow> ResourceLedger) \<Rightarrow> cookie \<Rightarrow> ResourceLedger \<Rightarrow> Event \<times> ResourceLedger" where
  "on_notification effect c L =
     (if notification_cookie L = Some c then (Delivered, effect L) else (Dropped, L))"

text \<open>
  Modelled from the spec: the Role Descriptor of section 3, a "tagged variant over
  Primary, Trusted, each embedding one ResourceLedger plus: Primary: an IrqDescriptor
  cached at init time; Trusted: an IrqDescriptor to request on acquire, and a
  MemoryRangeDescriptor to request on acquire" (the structs \<open>sde_vm_primary\<close> and
  \<open>sde_vm_trusted\<close>). An IrqDescriptor is an "ordered sequence of (label,
  mapped_irq_number) pairs". The primary role's \<open>release\<close> "marks hardware as
  released": the mark is the third argument of \<open>Primary\<close>.
\<close>

datatype 'r RoleDescriptor =
    Primary ResourceLedger "sde_vm_irq_entry list" bool
  | Trusted ResourceLedger "sde_vm_irq_entry list" 'r

fun ledger_of :: "'r RoleDescriptor \<Rightarrow> ResourceLedger" where
  "ledger_of (Primary L cache released) = L"
| "ledger_of (Trusted L irqs mem) = L"

fun map_ledger :: "(ResourceLedger \<Rightarrow> ResourceLedger) \<Rightarrow> 'r RoleDescriptor \<Rightarrow> 'r RoleDescriptor" where
  "map_ledger f (Primary L cache released) = Primary (f L) cache released"
| "map_ledger f (Trusted L irqs mem) = Trusted (f L) irqs mem"

text \<open>
  Modelled from the spec: "\<open>init_primary\<close>: primary VM is assumed to own the hardware at
  cold boot, so no lend call is issued; the IRQ list is only cached" and
  "\<open>init_trusted\<close>: does not itself perform the lend".
\<close>

definition init_primary :: "sde_vm_irq_entry list \<Rightarrow> 'r RoleDescriptor" where
  "init_primary cache = Primary new_ledger cache False"

definition init_trusted :: "sde_vm_irq_entry list \<Rightarrow> 'r \<Rightarrow> 'r RoleDescriptor" where
  "init_trusted irqs mem = Trusted new_ledger irqs mem"

text \<open>
  Modelled from the spec: "\<open>owns_hw() -> bool\<close>: a pure query; true iff this role's
  ledger currently reflects full ownership (all expected resources lent/held)". The
  trusted role expects its IRQ list and its memory range; the primary role, which
  lends nothing, owns the hardware unless it has marked it released.
\<close>

fun owns_hw :: "'r RoleDescriptor \<Rightarrow> bool" where
  "owns_hw (Primary L cache released) = (\<not> released)"
| "owns_hw (Trusted L irqs mem) =
     (held_irq_count L = int (length irqs) \<and> io_memory_handle L \<noteq> None)"

text \<open>
  Modelled from the spec: "\<open>acquire\<close>: For Trusted: lend IRQs then lend memory (IRQ lend
  must complete before memory lend is attempted; partial acquire on memory failure
  triggers automatic IRQ reclaim). For Primary: verify via \<open>vm_owns_hw\<close> bookkeeping
  only; no hypervisor call needed since primary is the default owner".
\<close>

fun acquire ::
  "('r, 'q) collaborators \<Rightarrow> 'r RoleDescriptor \<Rightarrow> (error + unit) \<times> 'r RoleDescriptor" where
  "acquire C (Primary L cache released) = (Inr (), Primary L cache False)"
| "acquire C (Trusted L irqs mem) =
     (case lend_irqs C irqs L of
        (Inl e, L1) \<Rightarrow> (Inl e, Trusted L1 irqs mem)
      | (Inr u, L1) \<Rightarrow>
          (case lend_memory C mem L1 of
             (Inr h, L2) \<Rightarrow> (Inr (), Trusted L2 irqs mem)
           | (Inl e, L2) \<Rightarrow> (Inl e, Trusted (snd (reclaim_irqs irqs L2)) irqs mem)))"

text \<open>
  Modelled from the spec: "\<open>vm_check() -> Result<(), Error>\<close>: polls all registered
  hardware clients for readiness to release; returns an error if any client reports
  busy".
\<close>

definition vm_check_clients :: "('r, 'q) collaborators \<Rightarrow> error + unit" where
  "vm_check_clients C = (if list_ex (\<lambda>b. b) (client_busy C) then Inl ClientNotReady else Inr ())"

text \<open>
  Modelled from the spec: "\<open>release\<close>: For Trusted: reclaim memory first, then reclaim
  IRQs (reverse order of acquire), validating each against the cached descriptor. For
  Primary: marks hardware as released to let a trusted session proceed", after
  "\<open>release\<close> invoked when \<open>vm_check\<close> reports one client busy: operation returns
  \<open>ClientNotReady\<close> and ledger is unchanged (no partial reclaim attempted)".
\<close>

fun release_resources ::
  "('r, 'q) collaborators \<Rightarrow> 'r RoleDescriptor \<Rightarrow> (error + unit) \<times> 'r RoleDescriptor" where
  "release_resources C (Primary L cache released) = (Inr (), Primary L cache True)"
| "release_resources C (Trusted L irqs mem) =
     (case io_memory_handle L of
        None \<Rightarrow> (Inl ResourceMismatch, Trusted L irqs mem)
      | Some h \<Rightarrow>
          (case reclaim_memory C h L of
             (Inl e, L1) \<Rightarrow> (Inl e, Trusted L1 irqs mem)
           | (Inr u, L1) \<Rightarrow>
               (case reclaim_irqs irqs L1 of
                  (res, L2) \<Rightarrow> (res, Trusted L2 irqs mem))))"

definition release ::
  "('r, 'q) collaborators \<Rightarrow> 'r RoleDescriptor \<Rightarrow> (error + unit) \<times> 'r RoleDescriptor" where
  "release C r =
     (case vm_check_clients C of
        Inl e \<Rightarrow> (Inl e, r)
      | Inr u \<Rightarrow> release_resources C r)"

text \<open>
  Modelled from the spec: "\<open>prepare_commit(pending_commit_state) -> Result<(), Error>\<close>:
  invoked before the first hardware-programming commit after acquisition; must fail if
  \<open>owns_hw()\<close> is false" with the error \<open>OwnershipViolation\<close>, "commit attempted
  without ownership". \<open>'c\<close> is the commit state, which belongs to the commit pipeline.
\<close>

definition prepare_commit ::
  "'r RoleDescriptor \<Rightarrow> 'c \<Rightarrow> (error + unit) \<times> 'r RoleDescriptor" where
  "prepare_commit r pending = (if owns_hw r then (Inr (), r) else (Inl OwnershipViolation, r))"

text \<open>
  Modelled from the spec: "\<open>post_commit(committed_state)\<close>: gives the role a chance to
  flush/quiesce state", and "\<open>client_pre_release\<close>: broadcasts a pre-release
  notification to every registered client", "\<open>client_post_acquire\<close>: broadcasts a
  post-acquire notification". What they do happens outside the role.
\<close>

definition post_commit ::
  "'r RoleDescriptor \<Rightarrow> 'c \<Rightarrow> (error + unit) \<times> 'r RoleDescriptor" where
  "post_commit r committed = (Inr (), r)"

definition client_pre_release :: "'r RoleDescriptor \<Rightarrow> (error + unit) \<times> 'r RoleDescriptor" where
  "client_pre_release r = (Inr (), r)"

definition client_post_acquire :: "'r RoleDescriptor \<Rightarrow> (error + unit) \<times> 'r RoleDescriptor" where
  "client_post_acquire r = (Inr (), r)"

text \<open>
  Modelled from the spec: "\<open>request_valid(old_state, new_state)\<close>: delegates to the
  Request Validator; any transition not in that set is rejected without side effects".
\<close>

definition request_valid :: "('r, 'q) collaborators \<Rightarrow> 'q \<Rightarrow> 'q \<Rightarrow> error + unit" where
  "request_valid C old_state new_state =
     (if legal_transition C old_state new_state then Inr () else Inl InvalidTransition)"

text \<open>
  Modelled from the spec: "\<open>deinit(role)\<close>: releases any resources still held by the
  role's ledger, unregisters pending notifications, and invalidates the descriptor".
\<close>

definition deinit :: "'r RoleDescriptor \<Rightarrow> 'r RoleDescriptor" where
  "deinit r =
     map_ledger (\<lambda>L. L\<lparr>held_irq_count := 0, io_memory_handle := None,
                        notification_cookie := None, lent_irqs := []\<rparr>) r"

text \<open>
  Modelled from the spec: the VM Operation Table of section 4.3, "a fixed set of
  operations, one implementation per role, dispatched explicitly": one constructor for
  each hook of \<open>sde_vm_ops\<close>, and what a call of the hook leaves of the role.
\<close>

datatype ('c, 'q) vm_hook =
    Vm_acquire
  | Vm_release
  | Vm_owns_hw
  | Vm_prepare_commit 'c
  | Vm_post_commit 'c
  | Vm_deinit
  | Vm_check
  | Vm_client_pre_release
  | Vm_client_post_acquire
  | Vm_request_valid 'q 'q

fun hook_effect ::
  "('r, 'q) collaborators \<Rightarrow> ('c, 'q) vm_hook \<Rightarrow> 'r RoleDescriptor \<Rightarrow> 'r RoleDescriptor" where
  "hook_effect C Vm_acquire r = snd (acquire C r)"
| "hook_effect C Vm_release r = snd (release C r)"
| "hook_effect C Vm_owns_hw r = r"
| "hook_effect C (Vm_prepare_commit pending) r = snd (prepare_commit r pending)"
| "hook_effect C (Vm_post_commit committed) r = snd (post_commit r committed)"
| "hook_effect C Vm_deinit r = deinit r"
| "hook_effect C Vm_check r = r"
| "hook_effect C Vm_client_pre_release r = snd (client_pre_release r)"
| "hook_effect C Vm_client_post_acquire r = snd (client_post_acquire r)"
| "hook_effect C (Vm_request_valid old_state new_state) r = r"

text \<open>
  The invariant of the ledger in section 3: the count "is never negative; it equals the
  length of the currently-lent IRQ list".
\<close>

definition ledger_inv :: "ResourceLedger \<Rightarrow> bool" where
  "ledger_inv L \<longleftrightarrow> 0 \<le> held_irq_count L \<and> held_irq_count L = int (length (lent_irqs L))"

text \<open>
  The scenario of section 8: a trusted role with the IRQ list
  \<open>[(label=7, irq=42), (label=9, irq=55)]\<close>, and collaborators that accept every
  request; \<open>picky\<close> rejects the IRQ with label 9.
\<close>

definition irqs0 :: "sde_vm_irq_entry list" where
  "irqs0 = [\<lparr>label = 7, irq = 42\<rparr>, \<lparr>label = 9, irq = 55\<rparr>]"

definition willing :: "(nat, nat) collaborators" where
  "willing = \<lparr>hrm_lend_irq = (\<lambda>e. True), hrm_lend_memory = (\<lambda>r. Some 5),
              hrm_reclaim_memory = (\<lambda>h. True), client_busy = [False, False],
              legal_transition = (\<lambda>a b. True)\<rparr>"

definition picky :: "(nat, nat) collaborators" where
  "picky = willing\<lparr>hrm_lend_irq := (\<lambda>e. label e \<noteq> 9)\<rparr>"

text \<open>
  Two ledgers of that scenario, both with the lock held: before \<open>acquire\<close>, and after it
  ("ledger has \<open>held_irq_count = 2\<close>").
\<close>

definition locked_ledger :: ResourceLedger where
  "locked_ledger = new_ledger\<lparr>res_lock := Locked\<rparr>"

definition holding_ledger :: ResourceLedger where
  "holding_ledger = \<lparr>held_irq_count = 2, io_memory_handle = Some 5, notification_cookie = None,
                      lent_irqs = rev irqs0, res_lock = Locked\<rparr>"

section \<open>Properties of the inline helpers\<close>

text \<open>
  C6. For every hardware context, \<open>sde_vm_is_enabled\<close> (the build with the feature) is
  true if and only if a descriptor is installed in the context, that is, the pointer
  \<open>vm\<close> is not \<open>NULL\<close>.
\<close>

theorem sde_vm_is_enabled_iff_installed:
  "sde_vm_is_enabled True kms \<longleftrightarrow> (\<exists>v. vm kms = Some v)"
  by (simp add: sde_vm_is_enabled_def)

theorem sde_vm_is_enabled_iff_installed_witness:
  "sde_vm_is_enabled True kms_on \<and> vm kms_on = Some vm0
   \<and> \<not> sde_vm_is_enabled True kms_off \<and> vm kms_off = None"
  using sde_vm_is_enabled_iff_installed [of kms_on]
    sde_vm_is_enabled_iff_installed [of kms_off]
  by (simp add: kms_on_def kms_off_def)

text \<open>
  C7. For every hardware context, \<open>sde_vm_get_ops\<close> (the build with the feature) returns
  the table of hooks of the installed descriptor when one is installed, and \<open>NULL\<close> when
  none is.
\<close>

theorem sde_vm_get_ops_installed_or_null:
  "(\<forall>v. vm kms = Some v \<longrightarrow> sde_vm_get_ops True kms = Some (vm_ops v))
   \<and> (vm kms = None \<longrightarrow> sde_vm_get_ops True kms = None)"
  by (simp add: sde_vm_get_ops_def)

theorem sde_vm_get_ops_installed_or_null_witness:
  "vm kms_on = Some vm0 \<and> sde_vm_get_ops True kms_on = Some ops0
   \<and> vm kms_off = None \<and> sde_vm_get_ops True kms_off = None"
  using sde_vm_get_ops_installed_or_null [of kms_on]
    sde_vm_get_ops_installed_or_null [of kms_off]
  by (simp add: kms_on_def kms_off_def vm0_def)

text \<open>
  C8. With no descriptor installed, \<open>sde_vm_lock\<close> and \<open>sde_vm_unlock\<close> return and change
  nothing. With a descriptor installed, \<open>sde_vm_lock\<close> returns when \<open>vm_res_lock\<close> is
  free, and whenever it returns \<open>vm_res_lock\<close> is held and nothing else has changed;
  \<open>sde_vm_unlock\<close> leaves \<open>vm_res_lock\<close> free and changes nothing else.
\<close>

theorem sde_vm_lock_unlock_effect:
  "(vm kms = None \<longrightarrow> sde_vm_lock True kms = Some kms \<and> sde_vm_unlock True kms = kms)
   \<and> (\<forall>v. vm kms = Some v \<and> vm_res_lock v = Unlocked \<longrightarrow>
          sde_vm_lock True kms = Some (kms\<lparr>vm := Some (v\<lparr>vm_res_lock := Locked\<rparr>)\<rparr>))
   \<and> (\<forall>v kms'. vm kms = Some v \<and> sde_vm_lock True kms = Some kms' \<longrightarrow>
          kms' = kms\<lparr>vm := Some (v\<lparr>vm_res_lock := Locked\<rparr>)\<rparr>)
   \<and> (\<forall>v. vm kms = Some v \<longrightarrow>
          sde_vm_unlock True kms = kms\<lparr>vm := Some (v\<lparr>vm_res_lock := Unlocked\<rparr>)\<rparr>)"
  by (auto simp: sde_vm_lock_def sde_vm_unlock_def mutex_lock_def mutex_unlock_def
      split: mutex.splits)

theorem sde_vm_lock_unlock_effect_witness:
  "sde_vm_lock True kms_off = Some kms_off \<and> sde_vm_unlock True kms_off = kms_off
   \<and> sde_vm_lock True kms_on = Some \<lparr>vm = Some (vm0\<lparr>vm_res_lock := Locked\<rparr>)\<rparr>
   \<and> sde_vm_unlock True \<lparr>vm = Some (vm0\<lparr>vm_res_lock := Locked\<rparr>)\<rparr> = kms_on"
proof -
  have off: "vm kms_off = None"
    by (simp add: kms_off_def)
  have on: "vm kms_on = Some vm0 \<and> vm_res_lock vm0 = Unlocked"
    by (simp add: kms_on_def vm0_def)
  have held: "vm \<lparr>vm = Some (vm0\<lparr>vm_res_lock := Locked\<rparr>)\<rparr> = Some (vm0\<lparr>vm_res_lock := Locked\<rparr>)"
    by simp
  from off sde_vm_lock_unlock_effect [of kms_off]
  have 1: "sde_vm_lock True kms_off = Some kms_off \<and> sde_vm_unlock True kms_off = kms_off"
    by blast
  from on sde_vm_lock_unlock_effect [of kms_on]
  have "sde_vm_lock True kms_on = Some (kms_on\<lparr>vm := Some (vm0\<lparr>vm_res_lock := Locked\<rparr>)\<rparr>)"
    by blast
  then have 2: "sde_vm_lock True kms_on = Some \<lparr>vm = Some (vm0\<lparr>vm_res_lock := Locked\<rparr>)\<rparr>"
    by (simp add: kms_on_def)
  from held sde_vm_lock_unlock_effect [of "\<lparr>vm = Some (vm0\<lparr>vm_res_lock := Locked\<rparr>)\<rparr>"]
  have "sde_vm_unlock True \<lparr>vm = Some (vm0\<lparr>vm_res_lock := Locked\<rparr>)\<rparr>
        = \<lparr>vm = Some (vm0\<lparr>vm_res_lock := Locked\<rparr>)\<rparr>
            \<lparr>vm := Some (vm0\<lparr>vm_res_lock := Locked\<rparr>\<lparr>vm_res_lock := Unlocked\<rparr>)\<rparr>"
    by blast
  then have 3: "sde_vm_unlock True \<lparr>vm = Some (vm0\<lparr>vm_res_lock := Locked\<rparr>)\<rparr> = kms_on"
    by (simp add: kms_on_def vm0_def)
  from 1 2 3 show ?thesis by simp
qed

text \<open>
  C9. For every hardware context, \<open>sde_vm_is_enabled\<close> is true if and only if
  \<open>sde_vm_get_ops\<close> returns a table, that is, not \<open>NULL\<close>. It holds in the build with the
  feature and in the build without it.
\<close>

theorem sde_vm_is_enabled_iff_get_ops:
  "sde_vm_is_enabled config kms \<longleftrightarrow> sde_vm_get_ops config kms \<noteq> None"
  by (simp add: sde_vm_is_enabled_def sde_vm_get_ops_def split: option.splits)

theorem sde_vm_is_enabled_iff_get_ops_witness:
  "sde_vm_is_enabled True kms_on \<and> sde_vm_get_ops True kms_on \<noteq> None
   \<and> \<not> sde_vm_is_enabled True kms_off \<and> sde_vm_get_ops True kms_off = None"
  using sde_vm_is_enabled_iff_get_ops [of True kms_on]
    sde_vm_is_enabled_iff_get_ops [of True kms_off]
  by (simp add: sde_vm_get_ops_def kms_on_def kms_off_def)

text \<open>
  C10. In the build without the feature, for every context: \<open>sde_vm_primary_init\<close> and
  \<open>sde_vm_trusted_init\<close> return 0 and leave the context as it is, \<open>sde_vm_is_enabled\<close>
  is false, \<open>sde_vm_get_ops\<close> is \<open>NULL\<close>, and \<open>sde_vm_lock\<close> and \<open>sde_vm_unlock\<close> return
  with the context unchanged.
\<close>

theorem feature_compiled_out_is_noop:
  "sde_vm_primary_init False impl kms = (0, kms)
   \<and> sde_vm_trusted_init False impl kms = (0, kms)
   \<and> \<not> sde_vm_is_enabled False kms
   \<and> sde_vm_get_ops False kms = None
   \<and> sde_vm_lock False kms = Some kms
   \<and> sde_vm_unlock False kms = kms"
  by (simp add: sde_vm_primary_init_def sde_vm_trusted_init_def sde_vm_is_enabled_def
      sde_vm_get_ops_def sde_vm_lock_def sde_vm_unlock_def)

section \<open>Properties of the operations\<close>

subsection \<open>The ledger's operations keep its invariant\<close>

lemma rollback_irqs_append: "rollback_irqs ds (ds @ base) = base"
  by (induction ds) simp_all

lemma lend_each_result:
  "lend_each ok es taken (taken @ base) =
     (if list_all ok es then (Inr (), rev es @ taken @ base)
      else (Inl ResourceLendFailure, base))"
proof (induction es arbitrary: taken)
  case Nil
  show ?case by simp
next
  case (Cons e es)
  show ?case
  proof (cases "ok e")
    case True
    have "lend_each ok (e # es) taken (taken @ base) = lend_each ok es (e # taken) ((e # taken) @ base)"
      using True by simp
    also have "\<dots> = (if list_all ok es then (Inr (), rev es @ (e # taken) @ base)
                      else (Inl ResourceLendFailure, base))"
      by (rule Cons.IH)
    finally show ?thesis using True by simp
  next
    case False
    then show ?thesis by (simp add: rollback_irqs_append)
  qed
qed

lemma lend_irqs_result:
  "lend_irqs C es L =
     (if list_all (hrm_lend_irq C) es
      then (Inr (), L\<lparr>lent_irqs := rev es @ lent_irqs L,
                       held_irq_count := held_irq_count L + int (length es)\<rparr>)
      else (Inl ResourceLendFailure, L))"
  using lend_each_result [of "hrm_lend_irq C" es "[]" "lent_irqs L"]
  by (simp add: lend_irqs_def)

lemma lend_irqs_inv: "ledger_inv L \<Longrightarrow> ledger_inv (snd (lend_irqs C es L))"
  by (simp add: lend_irqs_result ledger_inv_def)

lemma reclaim_irqs_inv: "ledger_inv L \<Longrightarrow> ledger_inv (snd (reclaim_irqs expected L))"
proof -
  assume inv: "ledger_inv L"
  show ?thesis
  proof (cases "map label (rev (lent_irqs L)) = map label expected")
    case True
    then have "length (lent_irqs L) = length expected"
      by (metis length_map length_rev)
    with inv True show ?thesis by (simp add: reclaim_irqs_def ledger_inv_def)
  next
    case False
    with inv show ?thesis by (simp add: reclaim_irqs_def)
  qed
qed

lemma lend_memory_inv: "ledger_inv L \<Longrightarrow> ledger_inv (snd (lend_memory C mem L))"
  by (simp add: lend_memory_def ledger_inv_def split: option.splits)

lemma reclaim_memory_inv: "ledger_inv L \<Longrightarrow> ledger_inv (snd (reclaim_memory C h L))"
  by (simp add: reclaim_memory_def ledger_inv_def)


lemma acquire_inv:
  assumes inv: "ledger_inv (ledger_of r)"
  shows "ledger_inv (ledger_of (snd (acquire C r)))"
proof (cases r)
  case (Primary L cache released)
  with inv show ?thesis by simp
next
  case (Trusted L irqs mem)
  with inv have L: "ledger_inv L" by simp
  obtain res1 L1 where l1: "lend_irqs C irqs L = (res1, L1)" by (cases "lend_irqs C irqs L")
  have L1: "ledger_inv L1" using lend_irqs_inv [OF L, of C irqs] l1 by simp
  obtain res2 L2 where l2: "lend_memory C mem L1 = (res2, L2)" by (cases "lend_memory C mem L1")
  have L2: "ledger_inv L2" using lend_memory_inv [OF L1, of C mem] l2 by simp
  have L3: "ledger_inv (snd (reclaim_irqs irqs L2))" using L2 by (rule reclaim_irqs_inv)
  show ?thesis using Trusted l1 l2 L1 L2 L3
    by (simp split: sum.splits)
qed

lemma release_resources_inv:
  assumes inv: "ledger_inv (ledger_of r)"
  shows "ledger_inv (ledger_of (snd (release_resources C r)))"
proof (cases r)
  case (Primary L cache released)
  with inv show ?thesis by simp
next
  case (Trusted L irqs mem)
  with inv have L: "ledger_inv L" by simp
  show ?thesis
  proof (cases "io_memory_handle L")
    case None
    with Trusted L show ?thesis by simp
  next
    case (Some h)
    obtain res1 L1 where l1: "reclaim_memory C h L = (res1, L1)" by (cases "reclaim_memory C h L")
    have L1: "ledger_inv L1" using reclaim_memory_inv [OF L, of C h] l1 by simp
    obtain res2 L2 where l2: "reclaim_irqs irqs L1 = (res2, L2)" by (cases "reclaim_irqs irqs L1")
    have L2: "ledger_inv L2" using reclaim_irqs_inv [OF L1, of irqs] l2 by simp
    show ?thesis using Trusted Some l1 l2 L1 L2
      by (simp split: sum.splits)
  qed
qed

lemma release_inv: "ledger_inv (ledger_of r) \<Longrightarrow> ledger_inv (ledger_of (snd (release C r)))"
  by (simp add: release_def release_resources_inv split: sum.splits)

lemma deinit_inv: "ledger_inv (ledger_of (deinit r))"
  by (cases r) (simp_all add: deinit_def ledger_inv_def)

lemma hook_effect_inv:
  "ledger_inv (ledger_of r) \<Longrightarrow> ledger_inv (ledger_of (hook_effect C h r))"
  by (cases h)
    (simp_all add: acquire_inv release_inv deinit_inv prepare_commit_def post_commit_def
      client_pre_release_def client_post_acquire_def)

lemma init_inv:
  "ledger_inv (ledger_of (init_primary cache))" "ledger_inv (ledger_of (init_trusted irqs mem))"
  by (simp_all add: init_primary_def init_trusted_def new_ledger_def ledger_inv_def)

lemma trusted_round_trip:
  assumes acq: "acquire C (Trusted L irqs mem) = (Inr (), r1)"
    and rel: "release C r1 = (Inr (), r2)"
  shows "r2 = Trusted L irqs mem \<and> lent_irqs L = [] \<and> io_memory_handle L = None"
proof -
  have all: "list_all (hrm_lend_irq C) irqs"
    using acq by (auto simp: lend_irqs_result split: if_splits)
  define L1 where "L1 = L\<lparr>lent_irqs := rev irqs @ lent_irqs L,
                           held_irq_count := held_irq_count L + int (length irqs)\<rparr>"
  have l1: "lend_irqs C irqs L = (Inr (), L1)"
    using all by (simp add: lend_irqs_result L1_def)
  obtain h where none: "io_memory_handle L = None" and r1: "r1 = Trusted (L1\<lparr>io_memory_handle := Some h\<rparr>) irqs mem"
    using acq l1 by (auto simp: lend_memory_def L1_def split: option.splits)
  have rr: "release_resources C r1 = (Inr (), r2)"
    using rel by (auto simp: release_def split: sum.splits)
  have m: "reclaim_memory C h (L1\<lparr>io_memory_handle := Some h\<rparr>) = (Inr (), L1\<lparr>io_memory_handle := None\<rparr>)"
    using rr r1 by (auto simp: reclaim_memory_def split: if_splits)
  have q: "reclaim_irqs irqs (L1\<lparr>io_memory_handle := None\<rparr>) = (Inr (), ledger_of r2)
           \<and> r2 = Trusted (ledger_of r2) irqs mem"
    using rr r1 m by (auto split: prod.splits)
  have same: "map label (rev (lent_irqs L1)) = map label irqs"
    using q by (auto simp: reclaim_irqs_def split: if_splits)
  then have "length (lent_irqs L1) = length irqs"
    by (metis length_map length_rev)
  then have empty: "lent_irqs L = []"
    by (simp add: L1_def)
  have restored: "L\<lparr>io_memory_handle := None, lent_irqs := []\<rparr> = L"
    using none empty by (cases L) simp
  have "ledger_of r2 = L"
    using q same restored by (simp add: reclaim_irqs_def L1_def)
  with q empty none show ?thesis by simp
qed

subsection \<open>The scenario, evaluated\<close>

lemma acquire_willing:
  "acquire willing (Trusted locked_ledger irqs0 (3::nat)) = (Inr (), Trusted holding_ledger irqs0 3)"
  by (simp add: lend_irqs_def lend_memory_def willing_def irqs0_def locked_ledger_def
      new_ledger_def holding_ledger_def)

lemma release_willing:
  "release willing (Trusted holding_ledger irqs0 (3::nat)) = (Inr (), Trusted locked_ledger irqs0 3)"
  by (simp add: release_def vm_check_clients_def reclaim_memory_def reclaim_irqs_def willing_def
      irqs0_def locked_ledger_def new_ledger_def holding_ledger_def)

subsection \<open>The claims\<close>

text \<open>
  C1. For both roles, \<open>prepare_commit\<close> called while \<open>owns_hw\<close> is false fails with
  \<open>OwnershipViolation\<close> and leaves the role as it is; \<open>prepare_commit\<close> never succeeds
  without ownership. The role \<open>r\<close> ranges over both variants, \<open>Primary\<close> and \<open>Trusted\<close>.
\<close>

theorem prepare_commit_needs_ownership:
  "(\<not> owns_hw r \<longrightarrow> prepare_commit r pending = (Inl OwnershipViolation, r))
   \<and> (fst (prepare_commit r pending) = Inr () \<longrightarrow> owns_hw r)"
  by (simp add: prepare_commit_def)

theorem prepare_commit_needs_ownership_witness:
  "\<not> owns_hw (Primary new_ledger irqs0 True :: nat RoleDescriptor)
   \<and> prepare_commit (Primary new_ledger irqs0 True :: nat RoleDescriptor) (0::nat)
       = (Inl OwnershipViolation, Primary new_ledger irqs0 True)
   \<and> \<not> owns_hw (init_trusted irqs0 (1::nat))
   \<and> prepare_commit (init_trusted irqs0 (1::nat)) (0::nat)
       = (Inl OwnershipViolation, init_trusted irqs0 1)
   \<and> fst (prepare_commit (init_primary irqs0 :: nat RoleDescriptor) (0::nat)) = Inr ()
   \<and> owns_hw (init_primary irqs0 :: nat RoleDescriptor)"
proof -
  have p: "\<not> owns_hw (Primary new_ledger irqs0 True :: nat RoleDescriptor)"
    by simp
  have t: "\<not> owns_hw (init_trusted irqs0 (1::nat))"
    by (simp add: init_trusted_def new_ledger_def irqs0_def)
  have q: "fst (prepare_commit (init_primary irqs0 :: nat RoleDescriptor) (0::nat)) = Inr ()"
    by (simp add: prepare_commit_def init_primary_def)
  from p prepare_commit_needs_ownership [of "Primary new_ledger irqs0 True :: nat RoleDescriptor" "0::nat"]
  have 1: "prepare_commit (Primary new_ledger irqs0 True :: nat RoleDescriptor) (0::nat)
             = (Inl OwnershipViolation, Primary new_ledger irqs0 True)"
    by blast
  from t prepare_commit_needs_ownership [of "init_trusted irqs0 (1::nat)" "0::nat"]
  have 2: "prepare_commit (init_trusted irqs0 (1::nat)) (0::nat)
             = (Inl OwnershipViolation, init_trusted irqs0 1)"
    by blast
  from q prepare_commit_needs_ownership [of "init_primary irqs0 :: nat RoleDescriptor" "0::nat"]
  have 3: "owns_hw (init_primary irqs0 :: nat RoleDescriptor)"
    by blast
  from p t q 1 2 3 show ?thesis by blast
qed

text \<open>
  C3. For every IRQ list, \<open>lend_irqs\<close> either succeeds, adds the length of the list to
  the count of held IRQs and the entries of the list to the lent list, or fails with
  \<open>ResourceLendFailure\<close> and returns the ledger it was given: the entries lent in the
  call before the rejected one have been rolled back. It succeeds exactly when the
  resource manager accepts every entry.
\<close>

theorem lend_irqs_all_or_nothing:
  "(list_all (hrm_lend_irq C) es
      \<and> fst (lend_irqs C es L) = Inr ()
      \<and> held_irq_count (snd (lend_irqs C es L)) = held_irq_count L + int (length es)
      \<and> lent_irqs (snd (lend_irqs C es L)) = rev es @ lent_irqs L)
   \<or> (list_ex (\<lambda>e. \<not> hrm_lend_irq C e) es
      \<and> fst (lend_irqs C es L) = Inl ResourceLendFailure
      \<and> snd (lend_irqs C es L) = L)"
  by (simp add: lend_irqs_result list_ex_iff list_all_iff)

theorem lend_irqs_all_or_nothing_witness:
  "lend_irqs willing irqs0 new_ledger
     = (Inr (), new_ledger\<lparr>lent_irqs := rev irqs0, held_irq_count := 2\<rparr>)
   \<and> lend_irqs picky irqs0 new_ledger = (Inl ResourceLendFailure, new_ledger)"
proof -
  have pn: "\<not> list_all (hrm_lend_irq picky) irqs0"
    by (simp add: picky_def willing_def irqs0_def)
  from pn lend_irqs_all_or_nothing [of picky irqs0 new_ledger]
  have 2: "fst (lend_irqs picky irqs0 new_ledger) = Inl ResourceLendFailure
           \<and> snd (lend_irqs picky irqs0 new_ledger) = new_ledger"
    by blast
  have 3: "lend_irqs willing irqs0 new_ledger
     = (Inr (), new_ledger\<lparr>lent_irqs := rev irqs0, held_irq_count := 2\<rparr>)"
    by (simp add: lend_irqs_def willing_def irqs0_def new_ledger_def)
  from 2 have 4: "lend_irqs picky irqs0 new_ledger = (Inl ResourceLendFailure, new_ledger)"
    by (simp add: prod_eq_iff)
  from 3 4 show ?thesis by simp
qed

text \<open>
  C4. For every role and every state of it, a successful \<open>acquire\<close> followed at once by a
  successful \<open>release\<close> returns the ledger to the state it had before \<open>acquire\<close>: a
  ledger that held no IRQ, no memory handle and no cookie before holds none after. For
  the trusted role the two successes alone tell that the ledger holds no IRQ and no
  memory handle after, whenever the invariant of the ledger held before.
\<close>

theorem acquire_release_round_trip:
  assumes acq: "acquire C r = (Inr (), r1)"
    and rel: "release C r1 = (Inr (), r2)"
  shows "ledger_of r2 = ledger_of r
         \<and> (held_irq_count (ledger_of r) = 0 \<and> io_memory_handle (ledger_of r) = None
              \<and> notification_cookie (ledger_of r) = None
            \<longrightarrow> held_irq_count (ledger_of r2) = 0 \<and> io_memory_handle (ledger_of r2) = None
              \<and> notification_cookie (ledger_of r2) = None)
         \<and> (\<forall>L irqs mem. r = Trusted L irqs mem \<and> ledger_inv L
              \<longrightarrow> held_irq_count (ledger_of r2) = 0 \<and> io_memory_handle (ledger_of r2) = None)"
proof (cases r)
  case (Primary L cache released)
  with acq have "r1 = Primary L cache False" by simp
  with rel have "r2 = Primary L cache True"
    by (auto simp: release_def split: sum.splits)
  with Primary show ?thesis by simp
next
  case (Trusted L irqs mem)
  with acq rel have "r2 = Trusted L irqs mem \<and> lent_irqs L = [] \<and> io_memory_handle L = None"
    using trusted_round_trip [of C L irqs mem r1 r2] by simp
  with Trusted show ?thesis by (simp add: ledger_inv_def)
qed

theorem acquire_release_round_trip_witness:
  "acquire willing (Trusted locked_ledger irqs0 (3::nat)) = (Inr (), Trusted holding_ledger irqs0 3)
   \<and> release willing (Trusted holding_ledger irqs0 (3::nat)) = (Inr (), Trusted locked_ledger irqs0 3)
   \<and> held_irq_count holding_ledger = 2
   \<and> held_irq_count locked_ledger = 0 \<and> io_memory_handle locked_ledger = None
   \<and> notification_cookie locked_ledger = None
   \<and> acquire willing (Primary locked_ledger irqs0 True :: nat RoleDescriptor)
        = (Inr (), Primary locked_ledger irqs0 False)
   \<and> release willing (Primary locked_ledger irqs0 False :: nat RoleDescriptor)
        = (Inr (), Primary locked_ledger irqs0 True)"
proof -
  have p1: "acquire willing (Primary locked_ledger irqs0 True :: nat RoleDescriptor)
        = (Inr (), Primary locked_ledger irqs0 False)"
    by simp
  have p2: "release willing (Primary locked_ledger irqs0 False :: nat RoleDescriptor)
        = (Inr (), Primary locked_ledger irqs0 True)"
    by (simp add: release_def vm_check_clients_def willing_def)
  have inv: "ledger_inv locked_ledger"
    by (simp add: ledger_inv_def locked_ledger_def new_ledger_def)
  from inv acquire_release_round_trip [OF acquire_willing release_willing]
  have "held_irq_count (ledger_of (Trusted locked_ledger irqs0 (3::nat))) = 0
        \<and> io_memory_handle (ledger_of (Trusted locked_ledger irqs0 (3::nat))) = None"
    by blast
  then have t: "held_irq_count locked_ledger = 0 \<and> io_memory_handle locked_ledger = None"
    by simp
  have c: "notification_cookie locked_ledger = None"
    by (simp add: locked_ledger_def new_ledger_def)
  have h: "held_irq_count holding_ledger = 2"
    by (simp add: holding_ledger_def)
  from acquire_willing release_willing p1 p2 t c h show ?thesis by blast
qed

text \<open>
  C5. For every notification whose cookie is not the one stored in the ledger,
  \<open>on_notification\<close> answers \<open>Dropped\<close> and returns the ledger unchanged, whatever a
  delivered notification would do to it; a notification is delivered only when its
  cookie is the stored one.
\<close>

theorem unmatched_notification_is_dropped:
  "(notification_cookie L \<noteq> Some c \<longrightarrow> on_notification effect c L = (Dropped, L))
   \<and> (fst (on_notification effect c L) = Delivered \<longleftrightarrow> notification_cookie L = Some c)"
  by (simp add: on_notification_def)

theorem unmatched_notification_is_dropped_witness:
  "notification_cookie (register_notification 11 new_ledger) \<noteq> Some 12
   \<and> on_notification (\<lambda>L. L\<lparr>held_irq_count := 0\<rparr>) 12 (register_notification 11 new_ledger)
       = (Dropped, register_notification 11 new_ledger)
   \<and> notification_cookie new_ledger \<noteq> Some 12
   \<and> on_notification (\<lambda>L. L\<lparr>held_irq_count := 0\<rparr>) 12 new_ledger = (Dropped, new_ledger)"
proof -
  have a: "notification_cookie (register_notification 11 new_ledger) \<noteq> Some 12"
    by (simp add: register_notification_def)
  have b: "notification_cookie new_ledger \<noteq> Some 12"
    by (simp add: new_ledger_def)
  from a unmatched_notification_is_dropped
    [of "register_notification 11 new_ledger" 12 "\<lambda>L. L\<lparr>held_irq_count := 0\<rparr>"]
  have 1: "on_notification (\<lambda>L. L\<lparr>held_irq_count := 0\<rparr>) 12 (register_notification 11 new_ledger)
       = (Dropped, register_notification 11 new_ledger)"
    by blast
  from b unmatched_notification_is_dropped [of new_ledger 12 "\<lambda>L. L\<lparr>held_irq_count := 0\<rparr>"]
  have 2: "on_notification (\<lambda>L. L\<lparr>held_irq_count := 0\<rparr>) 12 new_ledger = (Dropped, new_ledger)"
    by blast
  from a b 1 2 show ?thesis by blast
qed

end
